theory Spec2Isabelle
  imports Complex_Main "HOL-Library.Word" "HOL-Library.Multiset"
begin

section \<open>Data model (main.go, lines 14-69)\<close>

text \<open>
  Go's \<open>int64\<close> is a 64-bit word; \<open>sint\<close> reads it as the signed value the program sees.
  Go strings are byte sequences, as \<open>string\<close> is; \<open>len(s) > 0\<close> is \<open>length s > 0\<close>.
\<close>

type_synonym int64 = "64 word"

text \<open>
  Modelled from the spec: the declarations of the configuration types \<open>Mongo\<close>, \<open>Statsd\<close> and
  of the value \<open>LoadConfig\<close> returns are not part of main.go. Section 6 of the specification
  lists their fields: the interval, the Mongo connection parameters (addresses, user, pass) and
  the Statsd parameters (host, port, env, cluster). main.go reads exactly these fields, the
  port through the verb \<open>%d\<close>.
\<close>

record Mongo =
  Addresses :: "string list"
  User :: string
  Pass :: string

record Statsd =
  Host :: string
  Port :: int
  Env :: string
  Cluster :: string

record Config =
  Interval :: int64
  Mongo :: Mongo
  Statsd :: Statsd

record Connections =
  Current :: int64
  Available :: int64
  TotalCreated :: int64

record Mem =
  Resident :: int64
  Virtual :: int64
  Mapped :: int64
  MappedWithJournal :: int64

record RWT =
  Readers :: int64
  Writers :: int64
  Total :: int64

record GlobalLock =
  TotalTime :: int64
  LockTime :: int64
  CurrentQueue :: RWT
  ActiveClients :: RWT

record Opcounters =
  Insert :: int64
  Query :: int64
  Update :: int64
  Delete :: int64
  GetMore :: int64
  Command :: int64

record ExtraInfo =
  PageFaults :: int64
  HeapUsageInBytes :: int64

text \<open>
  The field \<open>Host\<close> of \<open>ServerStatus\<close> is declared after the field \<open>Host\<close> of \<open>Statsd\<close>:
  from here on \<open>Host\<close> is the snapshot's host and \<open>Statsd.Host\<close> the configured one.
\<close>

record ServerStatus =
  Host :: string
  Version :: string
  Process :: string
  Pid :: int64
  Uptime :: int64
  UptimeInMillis :: int64
  UptimeEstimate :: int64
  LocalTime :: int64
  Connections :: Connections
  ExtraInfo :: ExtraInfo
  Mem :: Mem
  GlobalLocks :: GlobalLock
  Opcounters :: Opcounters
  OpcountersReplicaSet :: Opcounters

section \<open>The outside world: calls, outcomes and the trace\<close>

text \<open>
  A Go \<open>error\<close> value is read through its method \<open>Error()\<close>, which gives the message.
\<close>

datatype error = New_error (Error: string)

record DialInfo =
  Addrs :: "string list"
  Direct :: bool
  Timeout :: int64

record Credential =
  Username :: string
  Password :: string

datatype Mode = Eventual | Monotonic | Strong

text \<open>
  What \<open>statsd.NewClient(addr, prefix)\<close> hands back: the client remembers the address it
  dialled and the namespace prefix it puts in front of every metric name.
\<close>

record Client =
  client_addr :: string
  client_prefix :: string

text \<open>
  Every call main.go makes into a library (mgo, the statsd client, fmt, time) is an effect.
  The model threads a trace through the program: the list of the calls made so far, each with
  the error it returned (\<open>None\<close> for \<open>nil\<close>). The rate of a gauge is Go's \<open>float32\<close>; the only
  rate the program passes is the constant 1.0.
\<close>

datatype call =
    mgo_DialWithInfo DialInfo
  | Session_Login Credential
  | Session_SetMode Mode bool
  | Session_Run string
  | Session_Close
  | statsd_NewClient string string
  | Statter_Gauge Client string int64 real
  | Statter_Close Client
  | fmt_Println string
  | Ticker_Stop

type_synonym event = "call \<times> error option"

text \<open>
  The world decides what every call returns, from the history and the call:
  \<open>outcome\<close> is the error (or \<open>None\<close>), \<open>document\<close> is the status document the monitored
  server decodes into the snapshot when the \<open>serverStatus\<close> command succeeds.
\<close>

record world =
  outcome :: "event list \<Rightarrow> call \<Rightarrow> error option"
  document :: "event list \<Rightarrow> ServerStatus"

definition perform :: "world \<Rightarrow> call \<Rightarrow> event list \<Rightarrow> error option \<times> event list" where
  "perform w c tr = (outcome w tr c, tr @ [(c, outcome w tr c)])"

text \<open>
  The Go idiom \<open>err = f(...); if err != nil { return err }; rest\<close> and the final
  \<open>return nil\<close>.
\<close>

definition return_nil :: "event list \<Rightarrow> error option \<times> event list" where
  "return_nil tr = (None, tr)"

definition if_err_return ::
  "(event list \<Rightarrow> error option \<times> event list) \<Rightarrow> (event list \<Rightarrow> error option \<times> event list)
    \<Rightarrow> event list \<Rightarrow> error option \<times> event list" where
  "if_err_return f rest tr =
     (case f tr of
        (Some err, tr') \<Rightarrow> (Some err, tr')
      | (None, tr') \<Rightarrow> rest tr')"

section \<open>Formatting (fmt.Sprintf with the format strings of main.go)\<close>

function decimal :: "nat \<Rightarrow> string" where
  "decimal n =
     (if n < 10 then [''0123456789'' ! n]
      else decimal (n div 10) @ [''0123456789'' ! (n mod 10)])"
  by pat_completeness auto
termination
  by (relation "measure id") auto

declare decimal.simps [simp del]

definition verb_d :: "int \<Rightarrow> string" where
  "verb_d i = (if i < 0 then ''-'' @ decimal (nat (- i)) else decimal (nat i))"

definition Sprintf_s_dot_s :: "string \<Rightarrow> string \<Rightarrow> string" where
  \<comment> \<open>\<open>fmt.Sprintf("%s.%s", a, b)\<close>\<close>
  "Sprintf_s_dot_s a b = a @ ''.'' @ b"

definition Sprintf_s_colon_d :: "string \<Rightarrow> int \<Rightarrow> string" where
  \<comment> \<open>\<open>fmt.Sprintf("%s:%d", a, n)\<close>\<close>
  "Sprintf_s_colon_d a n = a @ '':'' @ verb_d n"

section \<open>serverStatus (main.go, lines 71-100)\<close>

definition time_Second :: int64 where
  "time_Second = 1000000000"

text \<open>
  \<open>panic(err)\<close> is the result \<open>Inl err\<close>: the function does not return a snapshot, and the
  panic unwinds into the caller. Lines 92-99: the session mode is set (no result), the command
  is run, and its failure panics.
\<close>

definition serverStatus_run :: "world \<Rightarrow> event list \<Rightarrow> (error + ServerStatus) \<times> event list" where
  "serverStatus_run w tr =
     (let tr1 = snd (perform w (Session_SetMode Monotonic True) tr) in
      case perform w (Session_Run ''serverStatus'') tr1 of
        (Some err, tr2) \<Rightarrow> (Inl err, tr2)
      | (None, tr2) \<Rightarrow> (Inr (document w tr1), tr2))"

text \<open>Lines 84-99: everything after \<open>defer session.Close()\<close>.\<close>

definition serverStatus_session ::
  "world \<Rightarrow> Mongo \<Rightarrow> event list \<Rightarrow> (error + ServerStatus) \<times> event list" where
  "serverStatus_session w mongo_config tr =
     (if length (User mongo_config) > 0 then
        (let cred = \<lparr>Username = User mongo_config, Password = Pass mongo_config\<rparr> in
         case perform w (Session_Login cred) tr of
           (Some err, tr1) \<Rightarrow> (Inl err, tr1)
         | (None, tr1) \<Rightarrow> serverStatus_run w tr1)
      else serverStatus_run w tr)"

definition dial_info :: "Mongo \<Rightarrow> DialInfo" where
  \<comment> \<open>lines 72-76\<close>
  "dial_info mongo_config =
     \<lparr>Addrs = Addresses mongo_config, Direct = False, Timeout = time_Second * 30\<rparr>"

text \<open>
  Lines 78-83 and the deferred \<open>session.Close()\<close>, which runs on every way out of the
  function once the dial has succeeded, a panic included. When the dial fails there is no
  session, and nothing is closed.
\<close>

definition serverStatus ::
  "world \<Rightarrow> Mongo \<Rightarrow> event list \<Rightarrow> (error + ServerStatus) \<times> event list" where
  "serverStatus w mongo_config tr =
     (let info = dial_info mongo_config in
      case perform w (mgo_DialWithInfo info) tr of
        (Some err, tr1) \<Rightarrow> (Inl err, tr1)
      | (None, tr1) \<Rightarrow>
          (case serverStatus_session w mongo_config tr1 of
             (r, tr2) \<Rightarrow> (r, snd (perform w Session_Close tr2))))"

section \<open>The publishers (main.go, lines 102-246)\<close>

definition Gauge ::
  "world \<Rightarrow> Client \<Rightarrow> string \<Rightarrow> int64 \<Rightarrow> real \<Rightarrow> event list \<Rightarrow> error option \<times> event list" where
  "Gauge w client stat v rate = perform w (Statter_Gauge client stat v rate)"

definition to_int64 :: "int64 \<Rightarrow> int64" where
  \<comment> \<open>the conversion \<open>int64(x)\<close> of a value that is an \<open>int64\<close> already\<close>
  "to_int64 x = x"

definition pushConnections ::
  "world \<Rightarrow> Client \<Rightarrow> Connections \<Rightarrow> event list \<Rightarrow> error option \<times> event list" where
  "pushConnections w client connections =
     if_err_return (Gauge w client ''connections.current'' (to_int64 (Current connections)) 1)
    (if_err_return (Gauge w client ''connections.available'' (to_int64 (Available connections)) 1)
    (if_err_return (Gauge w client ''connections.created'' (to_int64 (TotalCreated connections)) 1)
     return_nil))"

definition pushOpcounters ::
  "world \<Rightarrow> Client \<Rightarrow> Opcounters \<Rightarrow> event list \<Rightarrow> error option \<times> event list" where
  "pushOpcounters w client opscounters =
     if_err_return (Gauge w client ''ops.inserts'' (Insert opscounters) 1)
    (if_err_return (Gauge w client ''ops.queries'' (Query opscounters) 1)
    (if_err_return (Gauge w client ''ops.updates'' (Update opscounters) 1)
    (if_err_return (Gauge w client ''ops.deletes'' (Delete opscounters) 1)
    (if_err_return (Gauge w client ''ops.getmores'' (GetMore opscounters) 1)
    (if_err_return (Gauge w client ''ops.commands'' (Command opscounters) 1)
     return_nil)))))"

definition pushMem ::
  "world \<Rightarrow> Client \<Rightarrow> Mem \<Rightarrow> event list \<Rightarrow> error option \<times> event list" where
  "pushMem w client mem =
     if_err_return (Gauge w client ''mem.resident'' (Resident mem) 1)
    (if_err_return (Gauge w client ''mem.virtual'' (Virtual mem) 1)
    (if_err_return (Gauge w client ''mem.mapped'' (Mapped mem) 1)
    (if_err_return (Gauge w client ''mem.mapped_with_journal'' (MappedWithJournal mem) 1)
     return_nil)))"

definition pushGlobalLocks ::
  "world \<Rightarrow> Client \<Rightarrow> GlobalLock \<Rightarrow> event list \<Rightarrow> error option \<times> event list" where
  "pushGlobalLocks w client glob =
     if_err_return (Gauge w client ''global_lock.total_time'' (TotalTime glob) 1)
    (if_err_return (Gauge w client ''global_lock.lock_time'' (LockTime glob) 1)
    (if_err_return (Gauge w client ''global_lock.active_readers'' (Readers (ActiveClients glob)) 1)
    (if_err_return (Gauge w client ''global_lock.active_writers'' (Writers (ActiveClients glob)) 1)
    (if_err_return (Gauge w client ''global_lock.active_total'' (Total (ActiveClients glob)) 1)
    (if_err_return (Gauge w client ''global_lock.queued_readers'' (Readers (CurrentQueue glob)) 1)
    (if_err_return (Gauge w client ''global_lock.queued_writers'' (Writers (CurrentQueue glob)) 1)
    (if_err_return (Gauge w client ''global_lock.queued_total'' (Total (CurrentQueue glob)) 1)
     return_nil)))))))"

definition pushExtraInfo ::
  "world \<Rightarrow> Client \<Rightarrow> ExtraInfo \<Rightarrow> event list \<Rightarrow> error option \<times> event list" where
  "pushExtraInfo w client info =
     if_err_return (Gauge w client ''extra.page_faults'' (PageFaults info) 1)
    (if_err_return (Gauge w client ''extra.heap_usage'' (HeapUsageInBytes info) 1)
     return_nil)"

section \<open>pushStats (main.go, lines 248-287)\<close>

definition namespace_prefix :: "Statsd \<Rightarrow> ServerStatus \<Rightarrow> string" where
  \<comment> \<open>lines 249-253\<close>
  "namespace_prefix statsd_config status =
     (let prefix = Env statsd_config;
          prefix = (if length (Cluster statsd_config) > 0
                    then Sprintf_s_dot_s prefix (Cluster statsd_config) else prefix)
      in Sprintf_s_dot_s prefix (Host status))"

definition host_port :: "Statsd \<Rightarrow> string" where
  \<comment> \<open>line 254\<close>
  "host_port statsd_config = Sprintf_s_colon_d (Statsd.Host statsd_config) (Port statsd_config)"

definition NewClient ::
  "world \<Rightarrow> string \<Rightarrow> string \<Rightarrow> event list \<Rightarrow> (error + Client) \<times> event list" where
  "NewClient w addr prefix tr =
     (case perform w (statsd_NewClient addr prefix) tr of
        (Some err, tr') \<Rightarrow> (Inl err, tr')
      | (None, tr') \<Rightarrow> (Inr \<lparr>client_addr = addr, client_prefix = prefix\<rparr>, tr'))"

definition pushStats_body ::
  "world \<Rightarrow> Client \<Rightarrow> ServerStatus \<Rightarrow> event list \<Rightarrow> error option \<times> event list" where
  \<comment> \<open>lines 261-286\<close>
  "pushStats_body w client status =
     if_err_return (pushConnections w client (Connections status))
    (if_err_return (pushOpcounters w client (Opcounters status))
    (if_err_return (pushMem w client (Mem status))
    (if_err_return (pushGlobalLocks w client (GlobalLocks status))
    (if_err_return (pushExtraInfo w client (ExtraInfo status))
     return_nil))))"

text \<open>
  The deferred \<open>client.Close()\<close> runs on every return after the client exists; what it
  returns is dropped.
\<close>

definition pushStats ::
  "world \<Rightarrow> Statsd \<Rightarrow> ServerStatus \<Rightarrow> event list \<Rightarrow> error option \<times> event list" where
  "pushStats w statsd_config status tr =
     (case NewClient w (host_port statsd_config) (namespace_prefix statsd_config status) tr of
        (Inl err, tr1) \<Rightarrow> (Some err, tr1)
      | (Inr client, tr1) \<Rightarrow>
          (case pushStats_body w client status tr1 of
             (r, tr2) \<Rightarrow> (r, snd (perform w (Statter_Close client) tr2))))"

section \<open>The ticking goroutine of main (main.go, lines 294-307)\<close>




section \<open>What a trace shows\<close>

definition new_events :: "event list \<Rightarrow> event list \<Rightarrow> event list" where
  \<comment> \<open>the events a run added to the history \<open>tr\<close> it started from\<close>
  "new_events tr tr' = drop (length tr) tr'"

fun gauge_calls :: "event list \<Rightarrow> ((string \<times> int64) \<times> error option) list" where
  "gauge_calls [] = []"
| "gauge_calls ((Statter_Gauge c stat v rate, r) # evs) = ((stat, v), r) # gauge_calls evs"
| "gauge_calls (_ # evs) = gauge_calls evs"

definition gauge_attempts :: "event list \<Rightarrow> (string \<times> int64) list" where
  \<comment> \<open>every gauge update the program tried to send, in order\<close>
  "gauge_attempts evs = map fst (gauge_calls evs)"

definition gauge_writes :: "event list \<Rightarrow> (string \<times> int64) list" where
  \<comment> \<open>the gauge updates the sink accepted, in order\<close>
  "gauge_writes evs = map fst (filter (\<lambda>g. snd g = None) (gauge_calls evs))"

fun gauge_clients :: "event list \<Rightarrow> Client list" where
  "gauge_clients [] = []"
| "gauge_clients ((Statter_Gauge c stat v rate, r) # evs) = c # gauge_clients evs"
| "gauge_clients (_ # evs) = gauge_clients evs"

fun namespaces :: "event list \<Rightarrow> string list" where
  \<comment> \<open>the prefix of every sink client the program asked for\<close>
  "namespaces [] = []"
| "namespaces ((statsd_NewClient addr prefix, r) # evs) = prefix # namespaces evs"
| "namespaces (_ # evs) = namespaces evs"

fun logins :: "event list \<Rightarrow> (Credential \<times> error option) list" where
  "logins [] = []"
| "logins ((Session_Login cred, r) # evs) = (cred, r) # logins evs"
| "logins (_ # evs) = logins evs"

fun is_run :: "event \<Rightarrow> bool" where
  "is_run (Session_Run cmd, r) = True"
| "is_run _ = False"





definition starts_with :: "'a list \<Rightarrow> 'a list \<Rightarrow> bool" where
  \<comment> \<open>\<open>ys\<close> starts with \<open>xs\<close>\<close>
  "starts_with ys xs = (take (length xs) ys = xs)"

definition group_of :: "string \<Rightarrow> string" where
  \<comment> \<open>the group of a metric name: what stands before its first dot\<close>
  "group_of stat = takeWhile (\<lambda>c. c \<noteq> CHR ''.'') stat"

section \<open>The table of section 4.3 of the specification\<close>

text \<open>
  This definition follows the specification's table, row by row, not the code: metric name
  and the snapshot field it publishes.
\<close>

definition spec_metric_table :: "(string \<times> (ServerStatus \<Rightarrow> int64)) list" where
  "spec_metric_table =
    [(''connections.current'', \<lambda>s. Current (Connections s)),
     (''connections.available'', \<lambda>s. Available (Connections s)),
     (''connections.created'', \<lambda>s. TotalCreated (Connections s)),
     (''ops.inserts'', \<lambda>s. Insert (Opcounters s)),
     (''ops.queries'', \<lambda>s. Query (Opcounters s)),
     (''ops.updates'', \<lambda>s. Update (Opcounters s)),
     (''ops.deletes'', \<lambda>s. Delete (Opcounters s)),
     (''ops.getmores'', \<lambda>s. GetMore (Opcounters s)),
     (''ops.commands'', \<lambda>s. Command (Opcounters s)),
     (''mem.resident'', \<lambda>s. Resident (Mem s)),
     (''mem.virtual'', \<lambda>s. Virtual (Mem s)),
     (''mem.mapped'', \<lambda>s. Mapped (Mem s)),
     (''mem.mapped_with_journal'', \<lambda>s. MappedWithJournal (Mem s)),
     (''global_lock.total_time'', \<lambda>s. TotalTime (GlobalLocks s)),
     (''global_lock.lock_time'', \<lambda>s. LockTime (GlobalLocks s)),
     (''global_lock.active_readers'', \<lambda>s. Readers (ActiveClients (GlobalLocks s))),
     (''global_lock.active_writers'', \<lambda>s. Writers (ActiveClients (GlobalLocks s))),
     (''global_lock.active_total'', \<lambda>s. Total (ActiveClients (GlobalLocks s))),
     (''global_lock.queued_readers'', \<lambda>s. Readers (CurrentQueue (GlobalLocks s))),
     (''global_lock.queued_writers'', \<lambda>s. Writers (CurrentQueue (GlobalLocks s))),
     (''global_lock.queued_total'', \<lambda>s. Total (CurrentQueue (GlobalLocks s))),
     (''extra.page_faults'', \<lambda>s. PageFaults (ExtraInfo s)),
     (''extra.heap_usage'', \<lambda>s. HeapUsageInBytes (ExtraInfo s))]"

definition spec_metric_names :: "string list" where
  "spec_metric_names = map fst spec_metric_table"

definition spec_gauges :: "ServerStatus \<Rightarrow> (string \<times> int64) list" where
  "spec_gauges s = map (\<lambda>(stat, field). (stat, field s)) spec_metric_table"

definition spec_groups :: "string list" where
  "spec_groups = [''connections'', ''ops'', ''mem'', ''global_lock'', ''extra'']"

text \<open>Sending a list of gauges in order, stopping at the first error.\<close>

fun send_all ::
  "world \<Rightarrow> Client \<Rightarrow> (string \<times> int64) list \<Rightarrow> event list \<Rightarrow> error option \<times> event list" where
  "send_all w client [] tr = (None, tr)"
| "send_all w client ((stat, v) # gs) tr =
     (case Gauge w client stat v 1 tr of
        (Some err, tr') \<Rightarrow> (Some err, tr')
      | (None, tr') \<Rightarrow> send_all w client gs tr')"

definition gauge_event :: "Client \<Rightarrow> string \<times> int64 \<Rightarrow> call" where
  "gauge_event client g = Statter_Gauge client (fst g) (snd g) 1"

definition sink_call :: "Statsd \<Rightarrow> ServerStatus \<Rightarrow> call" where
  \<comment> \<open>the call of line 255\<close>
  "sink_call statsd_config status =
     statsd_NewClient (host_port statsd_config) (namespace_prefix statsd_config status)"

definition sink_client :: "Statsd \<Rightarrow> ServerStatus \<Rightarrow> Client" where
  \<comment> \<open>the client line 255 gets when the call succeeds\<close>
  "sink_client statsd_config status =
     \<lparr>client_addr = host_port statsd_config,
      client_prefix = namespace_prefix statsd_config status\<rparr>"

definition accepted :: "Client \<Rightarrow> (string \<times> int64) list \<Rightarrow> event list" where
  \<comment> \<open>the events of gauges the sink accepted\<close>
  "accepted client gs = map (\<lambda>g. (gauge_event client g, None)) gs"

section \<open>Concrete inputs\<close>

definition example_status :: ServerStatus where
  "example_status =
     \<lparr>Host = ''db1'', Version = ''2.6.4'', Process = ''mongod'', Pid = 4242, Uptime = 3600,
      UptimeInMillis = 3600000, UptimeEstimate = 3590, LocalTime = 1400000000,
      Connections = \<lparr>Current = 12, Available = - 5, TotalCreated = 340\<rparr>,
      ExtraInfo = \<lparr>PageFaults = 7, HeapUsageInBytes = 65536\<rparr>,
      Mem = \<lparr>Resident = 100, Virtual = 900, Mapped = 400, MappedWithJournal = 800\<rparr>,
      GlobalLocks =
        \<lparr>TotalTime = 5000, LockTime = 40,
         CurrentQueue = \<lparr>Readers = 1, Writers = 2, Total = 3\<rparr>,
         ActiveClients = \<lparr>Readers = 4, Writers = 5, Total = 9\<rparr>\<rparr>,
      Opcounters =
        \<lparr>Insert = 10, Query = 20, Update = 30, Delete = 40, GetMore = 50, Command = 60\<rparr>,
      OpcountersReplicaSet =
        \<lparr>Insert = 1, Query = 2, Update = 3, Delete = 4, GetMore = 5, Command = 6\<rparr>\<rparr>"

definition example_statsd :: Statsd where
  "example_statsd = \<lparr>Statsd.Host = ''127.0.0.1'', Port = 8125, Env = ''prod'', Cluster = []\<rparr>"

definition example_sharded :: Statsd where
  "example_sharded =
     \<lparr>Statsd.Host = ''127.0.0.1'', Port = 8125, Env = ''prod'', Cluster = ''shardA''\<rparr>"

definition example_config :: Config where
  "example_config =
     \<lparr>Interval = 5 * time_Second,
      Mongo = \<lparr>Addresses = [''db1:27017''], User = ''monitor'', Pass = ''secret''\<rparr>,
      Statsd = example_statsd\<rparr>"

definition example_anonymous :: Mongo where
  "example_anonymous = \<lparr>Addresses = [''db1:27017''], User = [], Pass = []\<rparr>"

definition calm_world :: world where
  \<comment> \<open>nothing fails\<close>
  "calm_world = \<lparr>outcome = (\<lambda>tr c. None), document = (\<lambda>tr. example_status)\<rparr>"


definition sinkless_world :: world where
  \<comment> \<open>the sink client cannot be constructed\<close>
  "sinkless_world =
     \<lparr>outcome = (\<lambda>tr c. case c of
          statsd_NewClient addr prefix \<Rightarrow> Some (New_error ''lookup: no such host'')
        | _ \<Rightarrow> None),
      document = (\<lambda>tr. example_status)\<rparr>"


section \<open>The publishers send the table, in order, up to the first failure\<close>

lemma if_err_return_assoc:
  "if_err_return (if_err_return f g) h = if_err_return f (if_err_return g h)"
  by (rule ext) (simp add: if_err_return_def split: prod.splits option.splits)

lemma if_err_return_nil: "if_err_return return_nil h = h"
  by (rule ext) (simp add: if_err_return_def return_nil_def)

lemma send_all_Nil: "return_nil = send_all w client []"
  by (rule ext) (simp add: return_nil_def)

lemma send_all_Cons:
  "if_err_return (Gauge w client stat v 1) (send_all w client gs) =
   send_all w client ((stat, v) # gs)"
  by (rule ext) (simp add: if_err_return_def)

text \<open>
  The five publishers of main.go, chained as \<open>pushStats\<close> chains them, are one pass over
  the table of the specification.
\<close>

lemma pushStats_body_send_all:
  "pushStats_body w client status = send_all w client (spec_gauges status)"
  unfolding pushStats_body_def pushConnections_def pushOpcounters_def pushMem_def
    pushGlobalLocks_def pushExtraInfo_def if_err_return_assoc if_err_return_nil
    to_int64_def spec_gauges_def spec_metric_table_def
  by (simp only: send_all_Nil [of w client] send_all_Cons list.map prod.case)

lemma send_all_cases:
  "(\<exists>tr'. send_all w client gs tr = (None, tr') \<and> tr' = tr @ accepted client gs)
   \<or> (\<exists>k e. k < length gs \<and>
        send_all w client gs tr =
          (Some e, tr @ accepted client (take k gs) @ [(gauge_event client (gs ! k), Some e)]))"
proof (induction gs arbitrary: tr)
  case Nil
  then show ?case by (simp add: accepted_def)
next
  case (Cons g gs)
  obtain stat v where g: "g = (stat, v)" by (cases g)
  show ?case
  proof (cases "outcome w tr (Statter_Gauge client stat v 1)")
    case (Some e)
    then have "send_all w client (g # gs) tr = (Some e, tr @ [(gauge_event client g, Some e)])"
      by (simp add: g Gauge_def perform_def gauge_event_def)
    then have "0 < length (g # gs) \<and> send_all w client (g # gs) tr =
        (Some e, tr @ accepted client (take 0 (g # gs))
           @ [(gauge_event client ((g # gs) ! 0), Some e)])"
      by (simp add: accepted_def)
    then show ?thesis by blast
  next
    case None
    let ?tr1 = "tr @ [(gauge_event client g, None)]"
    have step: "send_all w client (g # gs) tr = send_all w client gs ?tr1"
      using None by (simp add: g Gauge_def perform_def gauge_event_def)
    from Cons.IH [of ?tr1] show ?thesis
    proof
      assume "\<exists>tr'. send_all w client gs ?tr1 = (None, tr') \<and> tr' = ?tr1 @ accepted client gs"
      then show ?thesis using step by (simp add: accepted_def)
    next
      assume "\<exists>k e. k < length gs \<and> send_all w client gs ?tr1 =
          (Some e, ?tr1 @ accepted client (take k gs) @ [(gauge_event client (gs ! k), Some e)])"
      then obtain k e where k: "k < length gs" and s: "send_all w client gs ?tr1 =
          (Some e, ?tr1 @ accepted client (take k gs) @ [(gauge_event client (gs ! k), Some e)])"
        by blast
      have "Suc k < length (g # gs) \<and> send_all w client (g # gs) tr =
          (Some e, tr @ accepted client (take (Suc k) (g # gs))
             @ [(gauge_event client ((g # gs) ! Suc k), Some e)])"
        using k s step by (simp add: accepted_def)
      then show ?thesis by blast
    qed
  qed
qed

text \<open>The three ways a publish cycle can go.\<close>

lemma pushStats_cases:
  obtains
    (no_client) e where
      "outcome w tr (sink_call cfg st) = Some e"
      "pushStats w cfg st tr = (Some e, tr @ [(sink_call cfg st, Some e)])"
  | (complete) x where
      "outcome w tr (sink_call cfg st) = None"
      "pushStats w cfg st tr =
         (None, tr @ (sink_call cfg st, None) # accepted (sink_client cfg st) (spec_gauges st)
                   @ [(Statter_Close (sink_client cfg st), x)])"
  | (aborted) k e x where
      "outcome w tr (sink_call cfg st) = None"
      "k < length (spec_gauges st)"
      "pushStats w cfg st tr =
         (Some e, tr @ (sink_call cfg st, None)
                   # accepted (sink_client cfg st) (take k (spec_gauges st))
                   @ [(gauge_event (sink_client cfg st) (spec_gauges st ! k), Some e),
                      (Statter_Close (sink_client cfg st), x)])"
proof (cases "outcome w tr (sink_call cfg st)")
  case (Some e)
  then have "pushStats w cfg st tr = (Some e, tr @ [(sink_call cfg st, Some e)])"
    by (simp add: pushStats_def NewClient_def perform_def sink_call_def)
  with Some show ?thesis by (rule no_client)
next
  case None
  let ?c = "sink_client cfg st"
  let ?gs = "spec_gauges st"
  let ?tr1 = "tr @ [(sink_call cfg st, None)]"
  have unfold: "pushStats w cfg st tr =
      (case send_all w ?c ?gs ?tr1 of
         (r, tr2) \<Rightarrow> (r, tr2 @ [(Statter_Close ?c, outcome w tr2 (Statter_Close ?c))]))"
    using None
    by (simp add: pushStats_def NewClient_def perform_def sink_call_def sink_client_def
        pushStats_body_send_all)
  from send_all_cases [of w ?c ?gs ?tr1] show ?thesis
  proof
    assume "\<exists>tr'. send_all w ?c ?gs ?tr1 = (None, tr') \<and> tr' = ?tr1 @ accepted ?c ?gs"
    then have "pushStats w cfg st tr =
         (None, tr @ (sink_call cfg st, None) # accepted ?c ?gs
            @ [(Statter_Close ?c, outcome w (?tr1 @ accepted ?c ?gs) (Statter_Close ?c))])"
      using unfold by auto
    with None show ?thesis by (rule complete)
  next
    assume "\<exists>k e. k < length ?gs \<and> send_all w ?c ?gs ?tr1 =
          (Some e, ?tr1 @ accepted ?c (take k ?gs) @ [(gauge_event ?c (?gs ! k), Some e)])"
    then obtain k e where k: "k < length ?gs"
      and s: "send_all w ?c ?gs ?tr1 =
          (Some e, ?tr1 @ accepted ?c (take k ?gs) @ [(gauge_event ?c (?gs ! k), Some e)])"
      by blast
    have "pushStats w cfg st tr =
         (Some e, tr @ (sink_call cfg st, None) # accepted ?c (take k ?gs)
            @ [(gauge_event ?c (?gs ! k), Some e),
               (Statter_Close ?c,
                outcome w (?tr1 @ accepted ?c (take k ?gs) @ [(gauge_event ?c (?gs ! k), Some e)])
                  (Statter_Close ?c))])"
      using unfold s by simp
    with None k show ?thesis by (rule aborted)
  qed
qed

subsection \<open>Reading the traces\<close>

lemma new_events_append: "new_events tr (tr @ evs) = evs"
  by (simp add: new_events_def)

lemma gauge_calls_append: "gauge_calls (xs @ ys) = gauge_calls xs @ gauge_calls ys"
  by (induction xs rule: gauge_calls.induct) simp_all

lemma gauge_clients_append: "gauge_clients (xs @ ys) = gauge_clients xs @ gauge_clients ys"
  by (induction xs rule: gauge_clients.induct) simp_all

lemma namespaces_append: "namespaces (xs @ ys) = namespaces xs @ namespaces ys"
  by (induction xs rule: namespaces.induct) simp_all

lemma gauge_calls_accepted: "gauge_calls (accepted client gs) = map (\<lambda>g. (g, None)) gs"
  by (induction gs) (simp_all add: accepted_def gauge_event_def)

lemma gauge_clients_accepted: "gauge_clients (accepted client gs) = map (\<lambda>g. client) gs"
  by (induction gs) (simp_all add: accepted_def gauge_event_def)

lemma namespaces_accepted: "namespaces (accepted client gs) = []"
  by (induction gs) (simp_all add: accepted_def gauge_event_def)

lemma map_fst_accepted: "map fst (accepted client gs) = map (gauge_event client) gs"
  by (simp add: accepted_def)


subsection \<open>The table\<close>

lemma length_spec_gauges: "length (spec_gauges st) = 23"
  by (simp add: spec_gauges_def spec_metric_table_def)

lemma names_spec_gauges: "map fst (spec_gauges st) = spec_metric_names"
  by (simp add: spec_gauges_def spec_metric_names_def spec_metric_table_def)

lemma distinct_spec_metric_names: "distinct spec_metric_names"
  by (simp add: spec_metric_names_def spec_metric_table_def)

lemma groups_spec_metric_names: "remdups_adj (map group_of spec_metric_names) = spec_groups"
  by (simp add: spec_metric_names_def spec_metric_table_def group_of_def spec_groups_def)

lemma length_spec_metric_names: "length spec_metric_names = 23"
  by (simp add: spec_metric_names_def spec_metric_table_def)

subsection \<open>The gauges of each kind of cycle\<close>

lemma gauge_calls_complete:
  "gauge_calls ((sink_call cfg st, None) # accepted c gs @ [(Statter_Close c, x)]) =
   map (\<lambda>g. (g, None)) gs"
  by (simp add: sink_call_def gauge_calls_append gauge_calls_accepted)

lemma gauge_calls_aborted:
  "gauge_calls ((sink_call cfg st, None) # accepted c gs
      @ [(gauge_event c g, Some e), (Statter_Close c, x)]) =
   map (\<lambda>g. (g, None)) gs @ [(g, Some e)]"
  by (simp add: sink_call_def gauge_calls_append gauge_calls_accepted gauge_event_def)

lemma attempts_no_client: "gauge_attempts [(sink_call cfg st, r)] = []"
  by (simp add: gauge_attempts_def sink_call_def)

lemma attempts_complete:
  "gauge_attempts ((sink_call cfg st, None) # accepted c gs @ [(Statter_Close c, x)]) = gs"
  by (simp add: gauge_attempts_def gauge_calls_complete comp_def)

lemma attempts_aborted:
  "gauge_attempts ((sink_call cfg st, None) # accepted c gs
      @ [(gauge_event c g, Some e), (Statter_Close c, x)]) = gs @ [g]"
  by (simp add: gauge_attempts_def gauge_calls_aborted comp_def)

lemma writes_complete:
  "gauge_writes ((sink_call cfg st, None) # accepted c gs @ [(Statter_Close c, x)]) = gs"
  by (simp add: gauge_writes_def gauge_calls_complete comp_def)


lemma take_Suc_nth: "k < length xs \<Longrightarrow> take k xs @ [xs ! k] = take (Suc k) xs"
  by (simp add: take_Suc_conv_app_nth)

text \<open>Whatever happens, the gauges attempted are an initial part of the table.\<close>

lemma attempts_initial:
  "\<exists>n. gauge_attempts (new_events tr (snd (pushStats w cfg st tr))) = take n (spec_gauges st)"
proof (cases w tr cfg st rule: pushStats_cases)
  case (no_client e)
  then have "gauge_attempts (new_events tr (snd (pushStats w cfg st tr))) = take 0 (spec_gauges st)"
    by (simp add: new_events_append attempts_no_client)
  then show ?thesis by blast
next
  case (complete x)
  then have "gauge_attempts (new_events tr (snd (pushStats w cfg st tr)))
      = take (length (spec_gauges st)) (spec_gauges st)"
    by (simp add: new_events_append attempts_complete)
  then show ?thesis by blast
next
  case (aborted k e x)
  then have "gauge_attempts (new_events tr (snd (pushStats w cfg st tr)))
      = take (Suc k) (spec_gauges st)"
    by (simp add: new_events_append attempts_aborted take_Suc_nth)
  then show ?thesis by blast
qed

text \<open>In a world where nothing fails the cycle is complete.\<close>

lemma calm_publish:
  "pushStats calm_world cfg st tr =
     (None, tr @ (sink_call cfg st, None) # accepted (sink_client cfg st) (spec_gauges st)
                   @ [(Statter_Close (sink_client cfg st), None)])"
  by (simp add: pushStats_def NewClient_def perform_def pushStats_body_send_all spec_gauges_def
      spec_metric_table_def Gauge_def calm_world_def accepted_def gauge_event_def sink_call_def
      sink_client_def)

text \<open>Two initial parts of one list: one of them starts with the other.\<close>

lemma take_starts_with:
  "starts_with (take m xs) (take n xs) \<or> starts_with (take n xs) (take m xs)"
proof (cases "n \<le> m")
  case True
  then have "take (length (take n xs)) (take m xs) = take n xs"
    by (simp add: min_def)
  then show ?thesis by (simp add: starts_with_def)
next
  case False
  then have "take (length (take m xs)) (take n xs) = take m xs"
    by (simp add: min_def)
  then show ?thesis by (simp add: starts_with_def)
qed

subsection \<open>Cycles of the ticking goroutine\<close>





subsection \<open>The concrete worlds\<close>









section \<open>The claims\<close>

text \<open>
  C1, as amended. In a publish cycle that returns no error, the gauges the sink accepted are
  the name and value pairs of the table of section 4.3, each exactly once and no other: every
  value is the snapshot field of its row, an \<open>int64\<close> as it stands. No gauge was attempted
  and refused, the names are pairwise different, and there are 23 of them, which is the
  number of rows of the table (the claim counts 20).
\<close>

theorem publish_emits_table:
  assumes "fst (pushStats w cfg st tr) = None"
  shows "mset (gauge_writes (new_events tr (snd (pushStats w cfg st tr)))) = mset (spec_gauges st)
    \<and> gauge_attempts (new_events tr (snd (pushStats w cfg st tr)))
        = gauge_writes (new_events tr (snd (pushStats w cfg st tr)))
    \<and> distinct (map fst (gauge_writes (new_events tr (snd (pushStats w cfg st tr)))))
    \<and> length (gauge_writes (new_events tr (snd (pushStats w cfg st tr)))) = 23"
proof (cases w tr cfg st rule: pushStats_cases)
  case (no_client e)
  with assms show ?thesis by simp
next
  case (complete x)
  have w: "gauge_writes (new_events tr (snd (pushStats w cfg st tr))) = spec_gauges st"
    by (simp add: complete new_events_append writes_complete)
  have a: "gauge_attempts (new_events tr (snd (pushStats w cfg st tr))) = spec_gauges st"
    by (simp add: complete new_events_append attempts_complete)
  show ?thesis
    by (simp add: w a names_spec_gauges distinct_spec_metric_names length_spec_gauges)
next
  case (aborted k e x)
  with assms show ?thesis by simp
qed

theorem publish_emits_table_witness:
  "fst (pushStats calm_world example_statsd example_status []) = None
   \<and> mset (gauge_writes (new_events []
        (snd (pushStats calm_world example_statsd example_status []))))
      = mset (spec_gauges example_status)
   \<and> length (gauge_writes (new_events []
        (snd (pushStats calm_world example_statsd example_status [])))) = 23"
  using publish_emits_table [of calm_world example_statsd example_status "[]"]
  by (simp add: calm_publish)

text \<open>
  The claim as stated fails: a cycle in which nothing fails emits 23 pairwise different
  metric names, not 20.
\<close>

theorem publish_emits_23_names:
  "fst (pushStats calm_world example_statsd example_status []) = None
   \<and> distinct (map fst (gauge_writes (new_events []
        (snd (pushStats calm_world example_statsd example_status [])))))
   \<and> length (map fst (gauge_writes (new_events []
        (snd (pushStats calm_world example_statsd example_status []))))) = 23
   \<and> length (map fst (gauge_writes (new_events []
        (snd (pushStats calm_world example_statsd example_status []))))) \<noteq> 20"
  by (simp add: calm_publish new_events_def writes_complete names_spec_gauges
      distinct_spec_metric_names length_spec_metric_names)






text \<open>
  C4. The namespace prefix a cycle asks the sink client for is environment, dot, cluster,
  dot, snapshot host when the cluster is not empty, and environment, dot, snapshot host when
  it is; the host is the snapshot's. Every gauge of the cycle goes through a client with that
  prefix.
\<close>

theorem namespace_of_cycle:
  "namespaces (new_events tr (snd (pushStats w cfg st tr)))
     = [if Cluster cfg = [] then Env cfg @ ''.'' @ Host st
        else Env cfg @ ''.'' @ Cluster cfg @ ''.'' @ Host st]
   \<and> (\<forall>c \<in> set (gauge_clients (new_events tr (snd (pushStats w cfg st tr)))).
         client_prefix c = (if Cluster cfg = [] then Env cfg @ ''.'' @ Host st
                            else Env cfg @ ''.'' @ Cluster cfg @ ''.'' @ Host st))"
proof -
  have p: "namespace_prefix cfg st = (if Cluster cfg = [] then Env cfg @ ''.'' @ Host st
        else Env cfg @ ''.'' @ Cluster cfg @ ''.'' @ Host st)"
    by (simp add: namespace_prefix_def Sprintf_s_dot_s_def Let_def)
  have c: "client_prefix (sink_client cfg st) = namespace_prefix cfg st"
    by (simp add: sink_client_def)
  have n: "namespaces [(sink_call cfg st, r)] = [namespace_prefix cfg st]" for r
    by (simp add: sink_call_def)
  have g: "gauge_clients [(sink_call cfg st, r)] = []" for r
    by (simp add: sink_call_def)
  show ?thesis
  proof (cases w tr cfg st rule: pushStats_cases)
    case (no_client e)
    then show ?thesis
      using n [of "Some e"] g [of "Some e"] by (simp add: new_events_append p)
  next
    case (complete x)
    have "new_events tr (snd (pushStats w cfg st tr)) =
        [(sink_call cfg st, None)] @ accepted (sink_client cfg st) (spec_gauges st)
          @ [(Statter_Close (sink_client cfg st), x)]"
      by (simp add: complete new_events_append)
    then show ?thesis
      using n [of None] g [of None] c
      by (simp add: namespaces_append namespaces_accepted gauge_clients_append
          gauge_clients_accepted p del: append.simps)
  next
    case (aborted k e x)
    have "new_events tr (snd (pushStats w cfg st tr)) =
        [(sink_call cfg st, None)] @ accepted (sink_client cfg st) (take k (spec_gauges st))
          @ [(gauge_event (sink_client cfg st) (spec_gauges st ! k), Some e)]
          @ [(Statter_Close (sink_client cfg st), x)]"
      by (simp add: aborted new_events_append)
    then show ?thesis
      using n [of None] g [of None] c
      by (simp add: namespaces_append namespaces_accepted gauge_clients_append
          gauge_clients_accepted p gauge_event_def del: append.simps)
  qed
qed

theorem namespace_of_cycle_witness:
  "namespaces (new_events [] (snd (pushStats calm_world example_statsd example_status [])))
      = [''prod.db1'']
   \<and> namespaces (new_events [] (snd (pushStats calm_world example_sharded example_status [])))
      = [''prod.shardA.db1'']"
  using namespace_of_cycle [of "[]" calm_world example_statsd example_status]
        namespace_of_cycle [of "[]" calm_world example_sharded example_status]
  by (simp add: example_statsd_def example_sharded_def example_status_def)

text \<open>
  C5. In a publish cycle that returns no error the gauges go out in the order of the table:
  the names are the names of the table in table order, and the groups they belong to come as
  the runs connections, ops, mem, global_lock, extra, in this order.
\<close>

theorem publish_order:
  assumes "fst (pushStats w cfg st tr) = None"
  shows "map fst (gauge_writes (new_events tr (snd (pushStats w cfg st tr)))) = spec_metric_names
    \<and> remdups_adj (map group_of
          (map fst (gauge_writes (new_events tr (snd (pushStats w cfg st tr)))))) = spec_groups"
proof (cases w tr cfg st rule: pushStats_cases)
  case (no_client e)
  with assms show ?thesis by simp
next
  case (complete x)
  then show ?thesis
    by (simp add: new_events_append writes_complete names_spec_gauges groups_spec_metric_names)
next
  case (aborted k e x)
  with assms show ?thesis by simp
qed

theorem publish_order_witness:
  "fst (pushStats calm_world example_statsd example_status []) = None
   \<and> map fst (gauge_writes (new_events []
        (snd (pushStats calm_world example_statsd example_status []))))
     = [''connections.current'', ''connections.available'', ''connections.created'',
        ''ops.inserts'', ''ops.queries'', ''ops.updates'', ''ops.deletes'', ''ops.getmores'',
        ''ops.commands'',
        ''mem.resident'', ''mem.virtual'', ''mem.mapped'', ''mem.mapped_with_journal'',
        ''global_lock.total_time'', ''global_lock.lock_time'', ''global_lock.active_readers'',
        ''global_lock.active_writers'', ''global_lock.active_total'',
        ''global_lock.queued_readers'', ''global_lock.queued_writers'',
        ''global_lock.queued_total'',
        ''extra.page_faults'', ''extra.heap_usage'']"
proof -
  have ok: "fst (pushStats calm_world example_statsd example_status []) = None"
    by (simp add: calm_publish)
  from publish_order [OF ok] show ?thesis
    using ok by (simp add: spec_metric_names_def spec_metric_table_def)
qed

text \<open>
  C7. Status retrieval logs in exactly when the configured user name is not empty. With an
  empty user name no login call is made at all, and once the dial has succeeded the status
  query is run without one. With a user name, a successful dial is followed by one login call,
  with the configured user name and password; and whenever the status query is run, that
  login has been made, and has succeeded, before it.
\<close>

theorem login_iff_username:
  "(User m = [] \<longrightarrow> logins (new_events tr (snd (serverStatus w m tr))) = [])
   \<and> (User m \<noteq> [] \<and> outcome w tr (mgo_DialWithInfo (dial_info m)) = None \<longrightarrow>
        map fst (logins (new_events tr (snd (serverStatus w m tr))))
          = [\<lparr>Username = User m, Password = Pass m\<rparr>])
   \<and> (User m \<noteq> [] \<and> filter is_run (new_events tr (snd (serverStatus w m tr))) \<noteq> [] \<longrightarrow>
        (Session_Login \<lparr>Username = User m, Password = Pass m\<rparr>, None)
          \<in> set (takeWhile (\<lambda>ev. \<not> is_run ev) (new_events tr (snd (serverStatus w m tr)))))
   \<and> (User m = [] \<and> outcome w tr (mgo_DialWithInfo (dial_info m)) = None \<longrightarrow>
        filter is_run (new_events tr (snd (serverStatus w m tr))) \<noteq> [])"
  by (simp add: serverStatus_def serverStatus_session_def serverStatus_run_def perform_def
      new_events_def Let_def split: option.splits)

theorem login_iff_username_witness:
  "User (Mongo example_config) \<noteq> []
   \<and> logins (new_events [] (snd (serverStatus calm_world (Mongo example_config) [])))
      = [(\<lparr>Username = ''monitor'', Password = ''secret''\<rparr>, None)]
   \<and> (Session_Login \<lparr>Username = ''monitor'', Password = ''secret''\<rparr>, None)
        \<in> set (takeWhile (\<lambda>ev. \<not> is_run ev)
              (new_events [] (snd (serverStatus calm_world (Mongo example_config) []))))
   \<and> User example_anonymous = []
   \<and> logins (new_events [] (snd (serverStatus calm_world example_anonymous []))) = []
   \<and> filter is_run (new_events [] (snd (serverStatus calm_world example_anonymous [])))
      = [(Session_Run ''serverStatus'', None)]"
proof -
  have u: "User (Mongo example_config) = ''monitor''" "Pass (Mongo example_config) = ''secret''"
    by (simp_all add: example_config_def)
  have a: "User example_anonymous = []"
    by (simp add: example_anonymous_def)
  have d: "outcome calm_world [] (mgo_DialWithInfo (dial_info mm)) = None" for mm
    by (simp add: calm_world_def)
  have r1: "filter is_run (new_events [] (snd (serverStatus calm_world (Mongo example_config) [])))
      = [(Session_Run ''serverStatus'', None)]"
    by (simp add: serverStatus_def serverStatus_session_def serverStatus_run_def perform_def
        new_events_def calm_world_def u)
  have r2: "filter is_run (new_events [] (snd (serverStatus calm_world example_anonymous [])))
      = [(Session_Run ''serverStatus'', None)]"
    by (simp add: serverStatus_def serverStatus_session_def serverStatus_run_def perform_def
        new_events_def calm_world_def a)
  have l1: "map snd (logins (new_events [] (snd (serverStatus calm_world (Mongo example_config) []))))
      = [None]"
    by (simp add: serverStatus_def serverStatus_session_def serverStatus_run_def perform_def
        new_events_def calm_world_def u)
  from login_iff_username [of "Mongo example_config" "[]" calm_world]
       login_iff_username [of example_anonymous "[]" calm_world]
  show ?thesis
    using d r1 r2 l1 by (auto simp: u a)
qed

text \<open>
  C8. Whatever the snapshot, every gauge a cycle attempts under the name
  \<open>connections.available\<close> carries the snapshot's field \<open>Connections.Available\<close> as it
  is, and a cycle that returns no error has sent it. Nothing is clamped: a negative value
  goes out negative.
\<close>

theorem available_passed_through:
  "(\<forall>g \<in> set (gauge_attempts (new_events tr (snd (pushStats w cfg st tr)))).
       fst g = ''connections.available'' \<longrightarrow> snd g = Available (Connections st))
   \<and> (fst (pushStats w cfg st tr) = None \<longrightarrow>
        (''connections.available'', Available (Connections st))
          \<in> set (gauge_writes (new_events tr (snd (pushStats w cfg st tr)))))"
proof
  have table: "\<forall>g \<in> set (spec_gauges st).
      fst g = ''connections.available'' \<longrightarrow> snd g = Available (Connections st)"
    by (simp add: spec_gauges_def spec_metric_table_def)
  obtain n where
    "gauge_attempts (new_events tr (snd (pushStats w cfg st tr))) = take n (spec_gauges st)"
    using attempts_initial by blast
  then have "set (gauge_attempts (new_events tr (snd (pushStats w cfg st tr))))
      \<subseteq> set (spec_gauges st)"
    by (simp add: set_take_subset)
  with table show "\<forall>g \<in> set (gauge_attempts (new_events tr (snd (pushStats w cfg st tr)))).
       fst g = ''connections.available'' \<longrightarrow> snd g = Available (Connections st)"
    by blast
next
  have row: "(''connections.available'', Available (Connections st)) \<in> set (spec_gauges st)"
    by (simp add: spec_gauges_def spec_metric_table_def)
  show "fst (pushStats w cfg st tr) = None \<longrightarrow>
        (''connections.available'', Available (Connections st))
          \<in> set (gauge_writes (new_events tr (snd (pushStats w cfg st tr))))"
  proof (cases w tr cfg st rule: pushStats_cases)
    case (no_client e)
    then show ?thesis by simp
  next
    case (complete x)
    then show ?thesis using row by (simp add: new_events_append writes_complete)
  next
    case (aborted k e x)
    then show ?thesis by simp
  qed
qed

theorem available_passed_through_witness:
  "fst (pushStats calm_world example_statsd example_status []) = None
   \<and> sint (Available (Connections example_status)) = - 5
   \<and> (''connections.available'', - 5)
        \<in> set (gauge_writes (new_events []
              (snd (pushStats calm_world example_statsd example_status []))))"
proof -
  have ok: "fst (pushStats calm_world example_statsd example_status []) = None"
    by (simp add: calm_publish)
  have v: "Available (Connections example_status) = - 5"
    by (simp add: example_status_def)
  from available_passed_through [of "[]" calm_world example_statsd example_status] show ?thesis
    using ok by (simp add: v)
qed

text \<open>
  C9. Publishing carries no state from one cycle to the next. Take two publish cycles of
  the same snapshot under the same configuration, from any two histories and in any two
  worlds (the second cycle may start where the first ended). If both return no error, they
  make the same calls in the same order, so the same gauge writes: names, values and order.
  And in every case the gauges the two cycles attempt are initial parts of one sequence, so
  one of them starts with the other: a cycle differs from another only in where a failure
  of the sink cuts it.
\<close>

theorem publish_repeatable:
  "(fst (pushStats w cfg st tr) = None \<and> fst (pushStats w' cfg st tr') = None \<longrightarrow>
      map fst (new_events tr (snd (pushStats w cfg st tr)))
        = map fst (new_events tr' (snd (pushStats w' cfg st tr')))
      \<and> gauge_writes (new_events tr (snd (pushStats w cfg st tr)))
        = gauge_writes (new_events tr' (snd (pushStats w' cfg st tr'))))
   \<and> (starts_with (gauge_attempts (new_events tr' (snd (pushStats w' cfg st tr'))))
                   (gauge_attempts (new_events tr (snd (pushStats w cfg st tr))))
      \<or> starts_with (gauge_attempts (new_events tr (snd (pushStats w cfg st tr))))
                     (gauge_attempts (new_events tr' (snd (pushStats w' cfg st tr')))))"
proof
  have full: "map fst (new_events h (snd (pushStats v cfg st h))) =
      sink_call cfg st # map (gauge_event (sink_client cfg st)) (spec_gauges st)
        @ [Statter_Close (sink_client cfg st)]
      \<and> gauge_writes (new_events h (snd (pushStats v cfg st h))) = spec_gauges st"
    if "fst (pushStats v cfg st h) = None" for v h
  proof (cases v h cfg st rule: pushStats_cases)
    case (no_client e)
    with that show ?thesis by simp
  next
    case (complete x)
    then show ?thesis by (simp add: new_events_append writes_complete map_fst_accepted)
  next
    case (aborted k e x)
    with that show ?thesis by simp
  qed
  show "fst (pushStats w cfg st tr) = None \<and> fst (pushStats w' cfg st tr') = None \<longrightarrow>
      map fst (new_events tr (snd (pushStats w cfg st tr)))
        = map fst (new_events tr' (snd (pushStats w' cfg st tr')))
      \<and> gauge_writes (new_events tr (snd (pushStats w cfg st tr)))
        = gauge_writes (new_events tr' (snd (pushStats w' cfg st tr')))"
    using full [of w tr] full [of w' tr'] by simp
next
  obtain n where
    n: "gauge_attempts (new_events tr (snd (pushStats w cfg st tr))) = take n (spec_gauges st)"
    using attempts_initial by blast
  obtain m where
    m: "gauge_attempts (new_events tr' (snd (pushStats w' cfg st tr'))) = take m (spec_gauges st)"
    using attempts_initial by blast
  show "starts_with (gauge_attempts (new_events tr' (snd (pushStats w' cfg st tr'))))
                   (gauge_attempts (new_events tr (snd (pushStats w cfg st tr))))
      \<or> starts_with (gauge_attempts (new_events tr (snd (pushStats w cfg st tr))))
                     (gauge_attempts (new_events tr' (snd (pushStats w' cfg st tr'))))"
    using take_starts_with [of m "spec_gauges st" n] by (simp add: n m)
qed

theorem publish_repeatable_witness:
  "fst (pushStats calm_world example_statsd example_status []) = None
   \<and> fst (pushStats calm_world example_statsd example_status
            (snd (pushStats calm_world example_statsd example_status []))) = None
   \<and> gauge_writes (new_events [] (snd (pushStats calm_world example_statsd example_status [])))
      = gauge_writes (new_events (snd (pushStats calm_world example_statsd example_status []))
          (snd (pushStats calm_world example_statsd example_status
            (snd (pushStats calm_world example_statsd example_status [])))))"
proof -
  have ok: "fst (pushStats calm_world example_statsd example_status h) = None" for h
    by (simp add: calm_publish)
  from publish_repeatable [of calm_world example_statsd example_status "[]" calm_world
      "snd (pushStats calm_world example_statsd example_status [])"]
  show ?thesis using ok by blast
qed

text \<open>
  C10. If constructing the sink client fails, \<open>pushStats\<close> returns that error at once:
  the failed construction is the only call of the cycle's publishing, and no gauge is
  attempted.
\<close>

theorem sink_construction_failure:
  assumes "outcome w tr (statsd_NewClient (host_port cfg) (namespace_prefix cfg st)) = Some e"
  shows "pushStats w cfg st tr =
      (Some e, tr @ [(statsd_NewClient (host_port cfg) (namespace_prefix cfg st), Some e)])
    \<and> gauge_attempts (new_events tr (snd (pushStats w cfg st tr))) = []"
  using assms
  by (simp add: pushStats_def NewClient_def perform_def new_events_append gauge_attempts_def)

theorem sink_construction_failure_witness:
  "outcome sinkless_world []
      (statsd_NewClient (host_port example_statsd) (namespace_prefix example_statsd example_status))
     = Some (New_error ''lookup: no such host'')
   \<and> pushStats sinkless_world example_statsd example_status [] =
      (Some (New_error ''lookup: no such host''),
       [(statsd_NewClient ''127.0.0.1:8125'' ''prod.db1'',
         Some (New_error ''lookup: no such host''))])"
proof -
  have h: "outcome sinkless_world []
      (statsd_NewClient (host_port example_statsd) (namespace_prefix example_statsd example_status))
     = Some (New_error ''lookup: no such host'')"
    by (simp add: sinkless_world_def)
  have hp: "host_port example_statsd = ''127.0.0.1:8125''"
    by (simp add: host_port_def example_statsd_def Sprintf_s_colon_d_def verb_d_def decimal.simps)
  have ns: "namespace_prefix example_statsd example_status = ''prod.db1''"
    by (simp add: namespace_prefix_def example_statsd_def example_status_def Sprintf_s_dot_s_def)
  from sink_construction_failure [OF h] show ?thesis
    using h by (simp add: hp ns)
qed

end
